theory Spec2Isabelle
  imports Main
begin

section \<open>Data model\<close>

text \<open>
  Python strings and byte strings are character lists. A \<open>Document\<close> of the source is a
  text with a metadata dictionary; the code only ever reads \<open>page_content\<close>.
\<close>

type_synonym bytes = "char list"

record document =
  page_content :: string
  metadata :: "(string \<times> string) list"

text \<open>\<open>Document(page_content=t)\<close>: the metadata dictionary is empty.\<close>

definition Document :: "string \<Rightarrow> document" where
  "Document t = \<lparr>page_content = t, metadata = []\<rparr>"

text \<open>
  Exceptions. \<open>ValueError\<close>, \<open>IndexError\<close> and \<open>FileNotFoundError\<close> are the ones
  the repository's own code raises; \<open>NoTranscriptFound\<close> is the one library exception
  the code tells apart; every other exception that leaves a library call is a
  \<open>LibraryError\<close> with its message. All of them are subclasses of Python's
  \<open>Exception\<close>, which is what \<open>except Exception\<close> catches.
\<close>

datatype exn =
    ValueError string
  | IndexError
  | FileNotFoundError string
  | NoTranscriptFound
  | LibraryError string

text \<open>
  The objects the libraries hand back: a Chroma store, with the documents its collection
  holds, the retriever over a store, and the retrieval chain over a retriever.
\<close>

datatype vector_store = Chroma "document list"
datatype retriever = Retriever vector_store
datatype rag_chain = RagChain retriever

definition as_retriever :: "vector_store \<Rightarrow> retriever" where
  "as_retriever vs = Retriever vs"

text \<open>
  A streamed piece of the chain's output is a dictionary; the code reads its keys
  \<open>answer\<close> and \<open>context\<close> with \<open>chunk.get\<close>, so a missing key is \<open>None\<close>.
\<close>

record chunk =
  chunk_answer :: "string option"
  chunk_context :: "document list option"

datatype message = HumanMessage string | AIMessage string "document list"

text \<open>The calls to external libraries, logged in the order they are made.\<close>

datatype call =
    SplitDocuments
  | LoadEmbeddingModel string
  | ChromaFromDocuments
  | YtFetch string
  | YdlDownload string
  | WhisperLoad
  | WhisperTranscribe string

text \<open>
  The external collaborators, as parameters: each library call of the source is one
  field, returning either its result or the message of the exception it raises.
  \<open>Chroma.from_documents\<close> returns the store, whatever its collection then holds;
  \<open>os.remove\<close> of a path may fail, with the message of its \<open>OSError\<close>.
\<close>

record env =
  split_documents :: "nat \<Rightarrow> nat \<Rightarrow> document list \<Rightarrow> document list"
  embedding_model :: "string \<Rightarrow> string option"
  chroma_from_documents :: "document list \<Rightarrow> string + vector_store"
  llm_init :: "string option"
  llm_invoke :: "string \<Rightarrow> string + string"
  re_findall :: "string \<Rightarrow> string \<Rightarrow> string list"
  chain_stream :: "rag_chain \<Rightarrow> string \<Rightarrow> message list \<Rightarrow> string + chunk list"
  yt_fetch :: "string \<Rightarrow> exn + string list"
  ydl_download :: "string \<Rightarrow> (string \<rightharpoonup> bytes) \<Rightarrow> string option \<times> (string \<rightharpoonup> bytes)"
  whisper_model :: "string option"
  whisper_transcribe :: "bytes \<Rightarrow> string + string list"
  web_loader :: "string \<Rightarrow> string + document list"
  pdf_loader :: "bytes \<Rightarrow> string + document list"
  docx_loader :: "bytes \<Rightarrow> string + document list"
  md5_hexdigest :: "bytes \<Rightarrow> string"
  splitext :: "string \<Rightarrow> string \<times> string"
  os_remove :: "string \<Rightarrow> string option"

section \<open>vector\_store.py\<close>

text \<open>
  \<open>create_vector_store\<close>: the result, and the library calls made on the way. The
  splitter is \<open>RecursiveCharacterTextSplitter(chunk_size=1000, chunk_overlap=200)\<close>.
\<close>

definition create_vector_store :: "env \<Rightarrow> document list \<Rightarrow> (exn + vector_store) \<times> call list" where
  "create_vector_store e documents =
     (if documents = [] then
        (Inl (ValueError ''Cannot create vector store from empty documents list.''), [])
      else
        let chunks = split_documents e 1000 200 documents in
        if chunks = [] then
          (Inl (ValueError ''Documents could not be split into chunks.''), [SplitDocuments])
        else
          (case embedding_model e ''all-MiniLM-L6-v2'' of
             Some m \<Rightarrow> (Inl (LibraryError m), [SplitDocuments, LoadEmbeddingModel ''all-MiniLM-L6-v2''])
           | None \<Rightarrow>
               (case chroma_from_documents e chunks of
                  Inl m \<Rightarrow> (Inl (LibraryError m),
                     [SplitDocuments, LoadEmbeddingModel ''all-MiniLM-L6-v2'', ChromaFromDocuments])
                | Inr vector_store \<Rightarrow> (Inr vector_store,
                     [SplitDocuments, LoadEmbeddingModel ''all-MiniLM-L6-v2'', ChromaFromDocuments]))))"


section \<open>The world outside the interpreter\<close>

text \<open>
  Everything the code reads and changes: the four fields of \<open>st.session_state\<close>, memo
  tables of Streamlit's caches, the files and directories on disk, and the log of library
  calls. The memo tables are those of the three cached functions that
  \<open>process_new_source\<close> calls and of the two cached functions of the video processor: a
  hit on one of them changes which library calls are made and which value reaches the
  session. Streamlit does not hash a parameter whose name starts with an underscore, so
  the tables of \<open>create_rag_chain\<close> and \<open>generate_suggested_questions\<close> hold at most
  one entry, whatever the argument. A function that raises stores nothing. Writing a file
  succeeds.
\<close>

record world =
  rag_chain :: "rag_chain option"
  chat_history :: "message list"
  suggested_questions :: "string list"
  source_name :: string
  vector_store_cache :: "(document list \<times> vector_store) list"
  rag_chain_cache :: "rag_chain option"
  suggested_questions_cache :: "string list option"
  transcript_cache :: "(string \<times> string option) list"
  whisper_cache :: "(string \<times> string option) list"
  files :: "string \<rightharpoonup> bytes"
  dirs :: "string set"
  calls :: "call list"

text \<open>The Session State of the specification: index reference, history, label, suggestions.\<close>

definition session_state :: "world \<Rightarrow> rag_chain option \<times> message list \<times> string \<times> string list" where
  "session_state w = (rag_chain w, chat_history w, source_name w, suggested_questions w)"

section \<open>Strings\<close>

text \<open>\<open>s.startswith(p)\<close>, \<open>sub in s\<close>, \<open>sep.join(xs)\<close>, \<open>s.split(sep)\<close>, \<open>s.strip()\<close>.\<close>

fun startswith :: "string \<Rightarrow> string \<Rightarrow> bool" where
  "startswith s [] = True"
| "startswith [] (p # ps) = False"
| "startswith (c # cs) (p # ps) = (c = p \<and> startswith cs ps)"

fun contains :: "string \<Rightarrow> string \<Rightarrow> bool" where
  "contains sub [] = (sub = [])"
| "contains sub (c # cs) = (startswith (c # cs) sub \<or> contains sub cs)"

fun join_str :: "string \<Rightarrow> string list \<Rightarrow> string" where
  "join_str sep [] = []"
| "join_str sep [x] = x"
| "join_str sep (x # y # ys) = x @ sep @ join_str sep (y # ys)"

text \<open>
  \<open>split_str sep n cur s\<close> scans \<open>s\<close> from the left; \<open>cur\<close> is the piece being
  collected, reversed, and \<open>n\<close> counts the characters of a separator just matched that
  are still to be skipped. The separators of the source are the non-empty constants
  \<open>v=\<close> and \<open>&\<close>.
\<close>

fun split_str :: "string \<Rightarrow> nat \<Rightarrow> string \<Rightarrow> string \<Rightarrow> string list" where
  "split_str sep n cur [] = [rev cur]"
| "split_str sep (Suc n) cur (c # cs) = split_str sep n cur cs"
| "split_str sep 0 cur (c # cs) =
     (if sep \<noteq> [] \<and> startswith (c # cs) sep
      then rev cur # split_str sep (length sep - 1) [] cs
      else split_str sep 0 (c # cur) cs)"

definition str_split :: "string \<Rightarrow> string \<Rightarrow> string list" where
  "str_split s sep = split_str sep 0 [] s"

definition isspace :: "char \<Rightarrow> bool" where
  "isspace c = (of_char c \<in> {9, 10, 11, 12, 13, 28, 29, 30, 31, 32, 133, 160 :: nat})"

definition strip :: "string \<Rightarrow> string" where
  "strip s = rev (dropWhile isspace (rev (dropWhile isspace s)))"

section \<open>video\_processor.py\<close>

text \<open>
  The \<open>try\<close> block of \<open>_transcribe_audio_with_whisper\<close>: download, check that the
  mp3 exists, load the model, transcribe, concatenate the segment texts.
\<close>

definition transcribe_audio_try :: "env \<Rightarrow> string \<Rightarrow> world \<Rightarrow> (exn + string) \<times> world" where
  "transcribe_audio_try e youtube_url w =
     (let w1 = w\<lparr>calls := calls w @ [YdlDownload youtube_url]\<rparr> in
      case ydl_download e youtube_url (files w1) of
        (Some m, fs) \<Rightarrow> (Inl (LibraryError m), w1\<lparr>files := fs\<rparr>)
      | (None, fs) \<Rightarrow>
          (let w2 = w1\<lparr>files := fs\<rparr> in
           case files w2 ''temp_audio.mp3'' of
             None \<Rightarrow> (Inl (FileNotFoundError ''Audio file was not created after download.''), w2)
           | Some audio \<Rightarrow>
               (let w3 = w2\<lparr>calls := calls w2 @ [WhisperLoad]\<rparr> in
                case whisper_model e of
                  Some m \<Rightarrow> (Inl (LibraryError m), w3)
                | None \<Rightarrow>
                    (let w4 = w3\<lparr>calls := calls w3 @ [WhisperTranscribe ''temp_audio.mp3'']\<rparr> in
                     case whisper_transcribe e audio of
                       Inl m \<Rightarrow> (Inl (LibraryError m), w4)
                     | Inr segments \<Rightarrow> (Inr (concat segments), w4)))))"

text \<open>
  The body of \<open>_transcribe_audio_with_whisper\<close>: \<open>except Exception\<close> turns every
  exception of the block into \<open>None\<close>; \<open>finally\<close> removes \<open>temp_audio.mp3\<close> if it
  exists. An exception of \<open>os.remove\<close> is raised in the \<open>finally\<close> block, outside
  the \<open>try\<close>: it replaces the value being returned and leaves the function.
\<close>

definition transcribe_audio_with_whisper_body :: "env \<Rightarrow> string \<Rightarrow> world \<Rightarrow> (exn + string option) \<times> world" where
  "transcribe_audio_with_whisper_body e youtube_url w =
     (case transcribe_audio_try e youtube_url w of
        (r, w1) \<Rightarrow>
          (let result = (case r of Inr transcription \<Rightarrow> Inr (Some transcription) | Inl x \<Rightarrow> Inr None)
           in if files w1 ''temp_audio.mp3'' \<noteq> None then
                (case os_remove e ''temp_audio.mp3'' of
                   Some m \<Rightarrow> (Inl (LibraryError m), w1)
                 | None \<Rightarrow> (result, w1\<lparr>files := (files w1)(''temp_audio.mp3'' := None)\<rparr>))
              else (result, w1)))"

text \<open>\<open>_transcribe_audio_with_whisper\<close> under \<open>@st.cache_data\<close>, keyed by the URL.\<close>

definition transcribe_audio_with_whisper :: "env \<Rightarrow> string \<Rightarrow> world \<Rightarrow> (exn + string option) \<times> world" where
  "transcribe_audio_with_whisper e youtube_url w =
     (case map_of (whisper_cache w) youtube_url of
        Some v \<Rightarrow> (Inr v, w)
      | None \<Rightarrow>
          (case transcribe_audio_with_whisper_body e youtube_url w of
             (Inl x, w1) \<Rightarrow> (Inl x, w1)
           | (Inr v, w1) \<Rightarrow> (Inr v, w1\<lparr>whisper_cache := (youtube_url, v) # whisper_cache w1\<rparr>)))"

text \<open>
  The \<open>try\<close> block of \<open>get_video_transcript\<close>. \<open>split("v=")[1]\<close> raises
  IndexError when the list has one element.
\<close>

definition get_video_transcript_try :: "env \<Rightarrow> string \<Rightarrow> world \<Rightarrow> (exn + string) \<times> world" where
  "get_video_transcript_try e youtube_url w =
     (case str_split youtube_url ''v='' of
        p0 # p1 # ps \<Rightarrow>
          (case str_split p1 ''&'' of
             [] \<Rightarrow> (Inl IndexError, w)
           | video_id # qs \<Rightarrow>
               (let w1 = w\<lparr>calls := calls w @ [YtFetch video_id]\<rparr> in
                case yt_fetch e video_id of
                  Inl x \<Rightarrow> (Inl x, w1)
                | Inr transcript_list \<Rightarrow> (Inr (join_str '' '' transcript_list), w1)))
      | ps \<Rightarrow> (Inl IndexError, w))"

text \<open>
  The body of \<open>get_video_transcript\<close>. The fallback is called in the handler of
  \<open>NoTranscriptFound\<close>, where nothing catches what it raises.
\<close>

definition get_video_transcript_body :: "env \<Rightarrow> string \<Rightarrow> world \<Rightarrow> (exn + string option) \<times> world" where
  "get_video_transcript_body e youtube_url w =
     (case get_video_transcript_try e youtube_url w of
        (Inr transcript, w1) \<Rightarrow> (Inr (Some transcript), w1)
      | (Inl NoTranscriptFound, w1) \<Rightarrow> transcribe_audio_with_whisper e youtube_url w1
      | (Inl x, w1) \<Rightarrow> (Inr None, w1))"

text \<open>\<open>get_video_transcript\<close> under \<open>@st.cache_data\<close>, keyed by the URL.\<close>

definition get_video_transcript :: "env \<Rightarrow> string \<Rightarrow> world \<Rightarrow> (exn + string option) \<times> world" where
  "get_video_transcript e youtube_url w =
     (case map_of (transcript_cache w) youtube_url of
        Some v \<Rightarrow> (Inr v, w)
      | None \<Rightarrow>
          (case get_video_transcript_body e youtube_url w of
             (Inl x, w1) \<Rightarrow> (Inl x, w1)
           | (Inr v, w1) \<Rightarrow> (Inr v, w1\<lparr>transcript_cache := (youtube_url, v) # transcript_cache w1\<rparr>)))"

section \<open>data\_loader.py\<close>

definition lib :: "string + 'a \<Rightarrow> exn + 'a" where
  "lib r = (case r of Inl m \<Rightarrow> Inl (LibraryError m) | Inr v \<Rightarrow> Inr v)"

definition load_from_webpage :: "env \<Rightarrow> string \<Rightarrow> exn + document list" where
  "load_from_webpage e url = lib (web_loader e url)"

definition load_from_pdf :: "env \<Rightarrow> string \<Rightarrow> world \<Rightarrow> exn + document list" where
  "load_from_pdf e file_path w =
     (case files w file_path of
        None \<Rightarrow> Inl (LibraryError ''file not found'')
      | Some b \<Rightarrow> lib (pdf_loader e b))"

definition load_from_docx :: "env \<Rightarrow> string \<Rightarrow> world \<Rightarrow> exn + document list" where
  "load_from_docx e file_path w =
     (case files w file_path of
        None \<Rightarrow> Inl (LibraryError ''file not found'')
      | Some b \<Rightarrow> lib (docx_loader e b))"

section \<open>rag\_pipeline.py\<close>

text \<open>\<open>create_rag_chain\<close> raises again what the construction of the model client raises.\<close>

definition create_rag_chain :: "env \<Rightarrow> retriever \<Rightarrow> exn + rag_chain" where
  "create_rag_chain e retr =
     (case llm_init e of
        Some m \<Rightarrow> Inl (LibraryError m)
      | None \<Rightarrow> Inr (RagChain retr))"

section \<open>app.py\<close>

subsection \<open>Cached helpers\<close>

definition questions_pattern :: string where
  "questions_pattern =
     [CHR 0x5C] @ ''d+'' @ [CHR 0x5C] @ ''.'' @ [CHR 0x5C] @ ''s*(.*?)(?='' @ [CHR 0x5C] @ ''n''
       @ [CHR 0x5C] @ ''d+'' @ [CHR 0x5C] @ ''.|$)''"

definition questions_prompt :: "string \<Rightarrow> string" where
  "questions_prompt combined_content =
     ''Based on the following text, generate 3 concise, insightful questions a user might want to ask. The questions should be distinct.''
       @ [CHR 0x0A, CHR 0x0A] @ ''Text:'' @ [CHR 0x0A, CHR 0x22, CHR 0x22, CHR 0x22] @ combined_content
       @ [CHR 0x22, CHR 0x22, CHR 0x22, CHR 0x0A, CHR 0x0A] @ ''Questions:''"

text \<open>
  The body of \<open>generate_suggested_questions\<close>: the text of the first three documents,
  cut at 4000 characters, goes to the model; \<open>except Exception\<close> turns every failure of
  the model call into the empty list.
\<close>

definition generate_suggested_questions :: "env \<Rightarrow> document list \<Rightarrow> exn + string list" where
  "generate_suggested_questions e docs =
     (if docs = [] then Inr []
      else
        let combined_content = take 4000 (join_str '' '' (map page_content (take 3 docs)));
            prompt = questions_prompt combined_content;
            attempt =
              (case llm_init e of
                 Some m \<Rightarrow> Inl (LibraryError m)
               | None \<Rightarrow>
                   (case llm_invoke e prompt of
                      Inl m \<Rightarrow> Inl (LibraryError m)
                    | Inr content \<Rightarrow>
                        (let questions = re_findall e questions_pattern content
                         in Inr (map strip (filter (\<lambda>q. strip q \<noteq> []) questions)))))
        in (case attempt of Inr qs \<Rightarrow> Inr qs | Inl x \<Rightarrow> Inr []))"

text \<open>The three cached functions as Streamlit calls them: a hit returns the stored value.\<close>

definition create_vector_store_cached :: "env \<Rightarrow> document list \<Rightarrow> world \<Rightarrow> (exn + vector_store) \<times> world" where
  "create_vector_store_cached e documents w =
     (case map_of (vector_store_cache w) documents of
        Some vs \<Rightarrow> (Inr vs, w)
      | None \<Rightarrow>
          (case create_vector_store e documents of
             (Inl x, cs) \<Rightarrow> (Inl x, w\<lparr>calls := calls w @ cs\<rparr>)
           | (Inr vs, cs) \<Rightarrow>
               (Inr vs, w\<lparr>vector_store_cache := (documents, vs) # vector_store_cache w,
                           calls := calls w @ cs\<rparr>)))"

definition create_rag_chain_cached :: "env \<Rightarrow> retriever \<Rightarrow> world \<Rightarrow> (exn + rag_chain) \<times> world" where
  "create_rag_chain_cached e retr w =
     (case rag_chain_cache w of
        Some c \<Rightarrow> (Inr c, w)
      | None \<Rightarrow>
          (case create_rag_chain e retr of
             Inl x \<Rightarrow> (Inl x, w)
           | Inr c \<Rightarrow> (Inr c, w\<lparr>rag_chain_cache := Some c\<rparr>)))"

definition generate_suggested_questions_cached :: "env \<Rightarrow> document list \<Rightarrow> world \<Rightarrow> (exn + string list) \<times> world" where
  "generate_suggested_questions_cached e docs w =
     (case suggested_questions_cache w of
        Some qs \<Rightarrow> (Inr qs, w)
      | None \<Rightarrow>
          (case generate_suggested_questions e docs of
             Inl x \<Rightarrow> (Inl x, w)
           | Inr qs \<Rightarrow> (Inr qs, w\<lparr>suggested_questions_cache := Some qs\<rparr>)))"

text \<open>\<open>st.cache_resource.clear()\<close> and \<open>st.cache_data.clear()\<close>.\<close>

definition cache_resource_clear :: "world \<Rightarrow> world" where
  "cache_resource_clear w = w\<lparr>vector_store_cache := [], rag_chain_cache := None\<rparr>"

definition cache_data_clear :: "world \<Rightarrow> world" where
  "cache_data_clear w =
     w\<lparr>suggested_questions_cache := None, transcript_cache := [], whisper_cache := []\<rparr>"

subsection \<open>Uploaded documents\<close>

text \<open>
  \<open>load_and_cache_document\<close>: the bytes are written to
  \<open>temp_docs_cache/<md5><extension>\<close>, the loader reads that file, and \<open>finally\<close>
  removes it if it exists; an exception of \<open>os.remove\<close> replaces the outcome of the
  \<open>try\<close> block.
\<close>

definition load_and_cache_document ::
    "env \<Rightarrow> bytes \<Rightarrow> string \<Rightarrow> string \<Rightarrow> world \<Rightarrow> (exn + document list) \<times> world" where
  "load_and_cache_document e file_content file_name file_type w =
     (let file_hash = md5_hexdigest e file_content;
          temp_dir = ''temp_docs_cache'';
          w1 = w\<lparr>dirs := insert temp_dir (dirs w)\<rparr>;
          file_extension = snd (splitext e file_name);
          temp_path = temp_dir @ ''/'' @ file_hash @ file_extension;
          w2 = w1\<lparr>files := (files w1)(temp_path \<mapsto> file_content)\<rparr>;
          result =
            (if file_type = ''application/pdf'' then load_from_pdf e temp_path w2
             else if file_type = ''application/vnd.openxmlformats-officedocument.wordprocessingml.document''
               then load_from_docx e temp_path w2
             else Inr [])
      in if files w2 temp_path \<noteq> None then
           (case os_remove e temp_path of
              Some m \<Rightarrow> (Inl (LibraryError m), w2)
            | None \<Rightarrow> (result, w2\<lparr>files := (files w2)(temp_path := None)\<rparr>))
         else (result, w2))"

subsection \<open>Ingestion\<close>

text \<open>
  \<open>process_new_source\<close>: both caches are cleared, the store and the chain are built,
  and only then the four fields of the session are assigned, one after the other.
\<close>

definition process_new_source :: "env \<Rightarrow> document list \<Rightarrow> string \<Rightarrow> world \<Rightarrow> (exn + unit) \<times> world" where
  "process_new_source e source_docs name w =
     (let w0 = cache_data_clear (cache_resource_clear w) in
      case create_vector_store_cached e source_docs w0 of
        (Inl x, w1) \<Rightarrow> (Inl x, w1)
      | (Inr vector_store, w1) \<Rightarrow>
          (case create_rag_chain_cached e (as_retriever vector_store) w1 of
             (Inl x, w2) \<Rightarrow> (Inl x, w2)
           | (Inr chain, w2) \<Rightarrow>
               (let w3 = w2\<lparr>rag_chain := Some chain\<rparr>;
                    w4 = w3\<lparr>chat_history := []\<rparr>;
                    w5 = w4\<lparr>source_name := name\<rparr>
                in case generate_suggested_questions_cached e source_docs w5 of
                     (Inl x, w6) \<Rightarrow> (Inl x, w6)
                   | (Inr qs, w6) \<Rightarrow> (Inr (), w6\<lparr>suggested_questions := qs\<rparr>))))"

text \<open>What one run of the script ends with.\<close>

datatype outcome =
    RerunAfterIngest
  | RerunAfterQuestion
  | RerunAfterAnswer
  | Raised exn
  | StError string
  | StWarning string
  | StInfo string
  | Idle

record uploaded_file =
  file_name :: string
  file_type :: string
  file_value :: bytes

text \<open>The button \<open>Process URL\<close> (lines 102 to 113).\<close>

definition process_url :: "env \<Rightarrow> string \<Rightarrow> world \<Rightarrow> outcome \<times> world" where
  "process_url e url w =
     (if url \<noteq> [] then
        (case (if contains ''youtube.com'' url \<or> contains ''youtu.be'' url then
                 (case get_video_transcript e url w of
                    (Inl x, w1) \<Rightarrow> (Inl x, w1)
                  | (Inr None, w1) \<Rightarrow> (Inr [], w1)
                  | (Inr (Some transcript), w1) \<Rightarrow>
                      (Inr (if transcript \<noteq> [] then [Document transcript] else []), w1))
               else (load_from_webpage e url, w)) of
           (Inl x, w1) \<Rightarrow> (Raised x, w1)
         | (Inr docs, w1) \<Rightarrow>
             (if docs \<noteq> [] then
                (case process_new_source e docs url w1 of
                   (Inl x, w2) \<Rightarrow> (Raised x, w2)
                 | (Inr u, w2) \<Rightarrow> (RerunAfterIngest, w2))
              else (StError ''Could not retrieve content.'', w1)))
      else (StWarning ''Please enter a URL.'', w))"

text \<open>The loop over the uploaded files: the first loader that raises ends it.\<close>

fun load_all :: "env \<Rightarrow> uploaded_file list \<Rightarrow> document list \<Rightarrow> world \<Rightarrow> (exn + document list) \<times> world" where
  "load_all e [] all_docs w = (Inr all_docs, w)"
| "load_all e (up_file # fs) all_docs w =
     (case load_and_cache_document e (file_value up_file) (file_name up_file) (file_type up_file) w of
        (Inl x, w1) \<Rightarrow> (Inl x, w1)
      | (Inr ds, w1) \<Rightarrow> load_all e fs (all_docs @ ds) w1)"

text \<open>The button \<open>Process Documents\<close> (lines 116 to 126).\<close>

definition process_documents :: "env \<Rightarrow> uploaded_file list \<Rightarrow> world \<Rightarrow> outcome \<times> world" where
  "process_documents e uploaded_files w =
     (if uploaded_files \<noteq> [] then
        (let name = join_str '', '' (map file_name uploaded_files) in
         case load_all e uploaded_files [] w of
           (Inl x, w1) \<Rightarrow> (Raised x, w1)
         | (Inr all_docs, w1) \<Rightarrow>
             (if all_docs \<noteq> [] then
                (case process_new_source e all_docs name w1 of
                   (Inl x, w2) \<Rightarrow> (Raised x, w2)
                 | (Inr u, w2) \<Rightarrow> (RerunAfterIngest, w2))
              else (StError ''Could not extract content.'', w1)))
      else (StWarning ''Please upload at least one document.'', w))"

datatype source = UrlSource string | UploadedFiles "uploaded_file list"

definition ingest :: "env \<Rightarrow> source \<Rightarrow> world \<Rightarrow> outcome \<times> world" where
  "ingest e src w =
     (case src of
        UrlSource url \<Rightarrow> process_url e url w
      | UploadedFiles fs \<Rightarrow> process_documents e fs w)"

subsection \<open>The chat\<close>

definition context_marker :: string where
  "context_marker = ''Based on the provided context:''"

text \<open>What the loop over the chat history draws (lines 135 to 143).\<close>

datatype widget = AssistantBubble string | UserBubble string | SourcesExpander "string list"

fun render_message :: "message \<Rightarrow> widget list" where
  "render_message (AIMessage content ctx) =
     AssistantBubble content #
       (if startswith content context_marker \<and> ctx \<noteq> []
        then [SourcesExpander (map page_content ctx)] else [])"
| "render_message (HumanMessage content) = [UserBubble content]"

definition render_history :: "message list \<Rightarrow> widget list" where
  "render_history h = concat (map render_message h)"

text \<open>
  The loop over the streamed pieces (lines 153 to 155): a non-empty \<open>answer\<close> is
  appended to the text, a non-empty \<open>context\<close> replaces the documents.
\<close>

fun consume_stream :: "chunk list \<Rightarrow> string \<Rightarrow> document list \<Rightarrow> string \<times> document list" where
  "consume_stream [] full_response context_docs = (full_response, context_docs)"
| "consume_stream (c # cs) full_response context_docs =
     consume_stream cs
       (case chunk_answer c of
          Some a \<Rightarrow> if a \<noteq> [] then full_response @ a else full_response
        | None \<Rightarrow> full_response)
       (case chunk_context c of
          Some d \<Rightarrow> if d \<noteq> [] then d else context_docs
        | None \<Rightarrow> context_docs)"

text \<open>The question waiting for its answer: the last message, if it is a user's.\<close>

definition pending_prompt :: "message list \<Rightarrow> string option" where
  "pending_prompt h =
     (if h = [] then None
      else (case last h of HumanMessage p \<Rightarrow> Some p | AIMessage a ctx \<Rightarrow> None))"

text \<open>The block that streams the answer (lines 146 to 160).\<close>

definition response_streaming :: "env \<Rightarrow> rag_chain \<Rightarrow> string \<Rightarrow> world \<Rightarrow> outcome \<times> world" where
  "response_streaming e chain prompt w =
     (case chain_stream e chain prompt (butlast (chat_history w)) of
        Inl m \<Rightarrow> (Raised (LibraryError m), w)
      | Inr response_stream \<Rightarrow>
          (case consume_stream response_stream [] [] of
             (full_response, context_docs) \<Rightarrow>
               (let ai_msg_with_context = AIMessage full_response context_docs;
                    w1 = w\<lparr>chat_history := chat_history w @ [ai_msg_with_context]\<rparr>;
                    w2 = w1\<lparr>suggested_questions := []\<rparr>
                in (RerunAfterAnswer, w2))))"

text \<open>What the user did before a run of the script, as far as the chat is concerned.\<close>

datatype event = NoEvent | SuggestionClick nat | ChatInput string

text \<open>
  The main part of the script (lines 129 to 172), in its order: the guard on
  \<open>rag_chain\<close>, the streaming block, the suggestion buttons, the chat input.
\<close>

definition main_chat_interface :: "env \<Rightarrow> event \<Rightarrow> world \<Rightarrow> outcome \<times> world" where
  "main_chat_interface e ev w =
     (case rag_chain w of
        None \<Rightarrow> (StInfo ''Please process a data source from the sidebar to start a conversation.'', w)
      | Some chain \<Rightarrow>
          (case pending_prompt (chat_history w) of
             Some prompt \<Rightarrow> response_streaming e chain prompt w
           | None \<Rightarrow>
               (case ev of
                  SuggestionClick i \<Rightarrow>
                    (if i < length (suggested_questions w)
                     then (RerunAfterQuestion,
                           w\<lparr>chat_history := chat_history w @ [HumanMessage (suggested_questions w ! i)]\<rparr>)
                     else (Idle, w))
                | ChatInput prompt \<Rightarrow>
                    (if prompt \<noteq> []
                     then (RerunAfterQuestion, w\<lparr>chat_history := chat_history w @ [HumanMessage prompt]\<rparr>)
                     else (Idle, w))
                | NoEvent \<Rightarrow> (Idle, w))))"

text \<open>
  Asking a question: the run in which the chat input is submitted, and the run that
  \<open>st.rerun()\<close> starts after the question has been appended.
\<close>

datatype ask_result = AskCompleted | AskNotAccepted outcome | AskFailed outcome

definition ask :: "env \<Rightarrow> string \<Rightarrow> world \<Rightarrow> ask_result \<times> world" where
  "ask e q w =
     (case main_chat_interface e (ChatInput q) w of
        (RerunAfterQuestion, w1) \<Rightarrow>
          (case main_chat_interface e NoEvent w1 of
             (RerunAfterAnswer, w2) \<Rightarrow> (AskCompleted, w2)
           | (r, w2) \<Rightarrow> (AskFailed r, w2))
      | (r, w1) \<Rightarrow> (AskNotAccepted r, w1))"

section \<open>Concrete inputs\<close>

text \<open>
  The session at the start of the script, and an environment in which every library call
  succeeds.
\<close>

definition world0 :: world where
  "world0 = \<lparr>
     rag_chain = None, chat_history = [], suggested_questions = [], source_name = [],
     vector_store_cache = [], rag_chain_cache = None, suggested_questions_cache = None,
     transcript_cache = [], whisper_cache = [],
     files = Map.empty, dirs = {}, calls = []
   \<rparr>"

definition env0 :: env where
  "env0 = \<lparr>
     split_documents = (\<lambda>n k ds. filter (\<lambda>d. page_content d \<noteq> []) ds),
     embedding_model = (\<lambda>_. None),
     chroma_from_documents = (\<lambda>chunks. Inr (Chroma chunks)),
     llm_init = None,
     llm_invoke = (\<lambda>p. Inr ''1. What is it?''),
     re_findall = (\<lambda>p s. [''What is it?'']),
     chain_stream = (\<lambda>c q h. Inr [\<lparr>chunk_answer = Some ''Based on the provided context: yes'', chunk_context = None\<rparr>]),
     yt_fetch = (\<lambda>v. Inr [''hello'', ''world'']),
     ydl_download = (\<lambda>u fs. (None, fs(''temp_audio.mp3'' \<mapsto> ''mp3''))),
     whisper_model = None,
     whisper_transcribe = (\<lambda>b. Inr [''spoken'']),
     web_loader = (\<lambda>u. Inr [Document ''page'']),
     pdf_loader = (\<lambda>b. Inr [Document b]),
     docx_loader = (\<lambda>b. Inr [Document b]),
     md5_hexdigest = (\<lambda>b. ''d41d8cd9''),
     splitext = (\<lambda>n. (n, ''.pdf'')),
     os_remove = (\<lambda>p. None)
   \<rparr>"

text \<open>
  A video without a transcript; a video whose transcript cannot be fetched for another
  reason; a video without a transcript whose audio is downloaded to \<open>temp_audio.mp4\<close>
  (the \<open>outtmpl\<close> of line 38) but not converted, the post-processor failing.
\<close>

definition env_no_transcript :: env where
  "env_no_transcript = env0\<lparr>yt_fetch := (\<lambda>v. Inl NoTranscriptFound)\<rparr>"

definition env_fetch_error :: env where
  "env_fetch_error = env0\<lparr>yt_fetch := (\<lambda>v. Inl (LibraryError ''TranscriptsDisabled''))\<rparr>"

definition env_download_fails :: env where
  "env_download_fails = env0\<lparr>
     yt_fetch := (\<lambda>v. Inl NoTranscriptFound),
     ydl_download := (\<lambda>u fs. (Some ''Postprocessing: ffprobe and ffmpeg not found'',
                                fs(''temp_audio.mp4'' \<mapsto> ''audio'')))\<rparr>"

definition video_url :: string where
  "video_url = ''https://www.youtube.com/watch?v=abc&t=1''"

text \<open>
  A video without a transcript whose download returns but leaves the audio under another
  name than \<open>temp_audio.mp3\<close>; one whose \<open>temp_audio.mp3\<close> cannot be removed; a
  session in which the transcript of the video is already memoised.
\<close>

definition env_other_name :: env where
  "env_other_name = env0\<lparr>
     yt_fetch := (\<lambda>v. Inl NoTranscriptFound),
     ydl_download := (\<lambda>u fs. (None, fs(''temp_audio.mp4.mp3'' \<mapsto> ''mp3'')))\<rparr>"

definition env_cleanup_fails :: env where
  "env_cleanup_fails = env0\<lparr>
     yt_fetch := (\<lambda>v. Inl NoTranscriptFound),
     os_remove := (\<lambda>p. Some ''PermissionError: the file is being used by another process'')\<rparr>"

definition world_memoised :: world where
  "world_memoised = world0\<lparr>transcript_cache := [(video_url, Some ''an earlier transcript'')]\<rparr>"

text \<open>
  A session with an active source and one exchange; a page without text; a chain whose
  answer comes from general knowledge although documents were retrieved; the session after
  one more question.
\<close>

definition chain1 :: rag_chain where
  "chain1 = RagChain (Retriever (Chroma [Document ''An older source.'']))"

definition world1 :: world where
  "world1 = world0\<lparr>
     rag_chain := Some chain1,
     chat_history := [HumanMessage ''Hi'', AIMessage ''Based on general knowledge: hello'' []],
     suggested_questions := [''What was the older source about?''],
     source_name := ''old.pdf'',
     rag_chain_cache := Some chain1,
     suggested_questions_cache := Some [''What was the older source about?'']\<rparr>"

definition env_blank_page :: env where
  "env_blank_page = env0\<lparr>web_loader := (\<lambda>u. Inr [Document []])\<rparr>"

definition env_general_knowledge :: env where
  "env_general_knowledge = env0\<lparr>chain_stream := (\<lambda>c q h. Inr
     [\<lparr>chunk_answer = None, chunk_context = Some [Document ''Paris is the capital of France.'']\<rparr>,
      \<lparr>chunk_answer = Some ''Based on general knowledge: '', chunk_context = None\<rparr>,
      \<lparr>chunk_answer = Some ''4'', chunk_context = None\<rparr>])\<rparr>"

definition world_asked :: world where
  "world_asked = world1\<lparr>chat_history := chat_history world1 @ [HumanMessage ''What is 2+2?'']\<rparr>"

text \<open>
  A chain that streams two different contexts around an answer from the context; a model
  that answers with the prompt it was given, every line of which counts as a question.
\<close>

definition env_two_contexts :: env where
  "env_two_contexts = env0\<lparr>chain_stream := (\<lambda>c q h. Inr
     [\<lparr>chunk_answer = None, chunk_context = Some [Document ''Berlin is the capital of Germany.'']\<rparr>,
      \<lparr>chunk_answer = Some ''Based on the provided context: '', chunk_context = Some []\<rparr>,
      \<lparr>chunk_answer = Some [], chunk_context = Some [Document ''Paris is the capital of France.'']\<rparr>,
      \<lparr>chunk_answer = Some ''Paris'', chunk_context = None\<rparr>])\<rparr>"


section \<open>Index construction\<close>

text \<open>
  C5. Building the vector index fails with the function's own error (the
  \<open>ValueError\<close> of lines 18 and 31, the spec's IndexingError) exactly when the
  document list is empty or the splitter returns no chunk; in that case no store is
  returned and \<open>Chroma.from_documents\<close> is never called.
\<close>

theorem create_vector_store_indexing_error:
  "((\<exists>m. fst (create_vector_store e documents) = Inl (ValueError m))
      \<longleftrightarrow> (documents = [] \<or> split_documents e 1000 200 documents = []))
   \<and> ((documents = [] \<or> split_documents e 1000 200 documents = [])
      \<longrightarrow> (\<forall>vs. fst (create_vector_store e documents) \<noteq> Inr vs)
          \<and> ChromaFromDocuments \<notin> set (snd (create_vector_store e documents)))"
  by (auto simp: create_vector_store_def Let_def split: option.splits sum.splits)

theorem create_vector_store_indexing_error_witness:
  "fst (create_vector_store env0 []) = Inl (ValueError ''Cannot create vector store from empty documents list.'')
   \<and> fst (create_vector_store env0 [Document '''']) = Inl (ValueError ''Documents could not be split into chunks.'')
   \<and> ChromaFromDocuments \<notin> set (snd (create_vector_store env0 [Document '''']))
   \<and> fst (create_vector_store env0 [Document ''Paris'']) = Inr (Chroma [Document ''Paris''])"
  using create_vector_store_indexing_error [of env0 "[]"]
    create_vector_store_indexing_error [of env0 "[Document '''']"]
  by (simp add: create_vector_store_def env0_def Document_def Let_def)

section \<open>Video transcripts\<close>

lemma split_str_no_sep:
  "\<not> contains sep s \<Longrightarrow> split_str sep 0 cur s = [rev cur @ s]"
  by (induction s arbitrary: cur) auto

lemma str_split_no_sep: "\<not> contains sep s \<Longrightarrow> str_split s sep = [s]"
  by (simp add: str_split_def split_str_no_sep)

lemma transcribe_audio_try_calls:
  "calls (snd (transcribe_audio_try e url w)) =
     calls w @ YdlDownload url #
       (case ydl_download e url (files w) of
          (Some m, fs) \<Rightarrow> []
        | (None, fs) \<Rightarrow>
            (case fs ''temp_audio.mp3'' of
               None \<Rightarrow> []
             | Some audio \<Rightarrow>
                 (case whisper_model e of
                    Some m \<Rightarrow> [WhisperLoad]
                  | None \<Rightarrow> [WhisperLoad, WhisperTranscribe ''temp_audio.mp3''])))"
  by (auto simp: transcribe_audio_try_def Let_def split: prod.splits option.splits sum.splits)

lemma transcribe_audio_with_whisper_body_calls:
  "calls (snd (transcribe_audio_with_whisper_body e url w)) = calls (snd (transcribe_audio_try e url w))"
  by (simp add: transcribe_audio_with_whisper_body_def Let_def split: prod.splits option.splits)

lemma transcribe_audio_with_whisper_calls:
  "map_of (whisper_cache w) url = None \<Longrightarrow>
   calls (snd (transcribe_audio_with_whisper e url w)) = calls (snd (transcribe_audio_try e url w))"
  using transcribe_audio_with_whisper_body_calls [of e url w]
  by (auto simp: transcribe_audio_with_whisper_def split: prod.splits sum.splits)

lemma transcribe_audio_with_whisper_hit:
  "map_of (whisper_cache w) url = Some v \<Longrightarrow> transcribe_audio_with_whisper e url w = (Inr v, w)"
  by (simp add: transcribe_audio_with_whisper_def)

lemma transcribe_audio_with_whisper_body_returns:
  "os_remove e ''temp_audio.mp3'' = None \<Longrightarrow>
   \<exists>r. fst (transcribe_audio_with_whisper_body e url w) = Inr r"
  by (auto simp: transcribe_audio_with_whisper_body_def Let_def split: prod.splits sum.splits)

lemma transcribe_audio_with_whisper_returns:
  "os_remove e ''temp_audio.mp3'' = None \<Longrightarrow>
   \<exists>r. fst (transcribe_audio_with_whisper e url w) = Inr r"
  using transcribe_audio_with_whisper_body_returns [of e url w]
  by (auto simp: transcribe_audio_with_whisper_def split: prod.splits sum.splits option.splits)

lemma transcribe_audio_with_whisper_failure:
  "os_remove e ''temp_audio.mp3'' = None \<Longrightarrow> map_of (whisper_cache w) url = None \<Longrightarrow>
   fst (transcribe_audio_try e url w) = Inl x \<Longrightarrow>
   fst (transcribe_audio_with_whisper e url w) = Inr None"
  by (auto simp: transcribe_audio_with_whisper_def transcribe_audio_with_whisper_body_def Let_def
      split: prod.splits sum.splits)

lemma transcribe_audio_with_whisper_body_mp3:
  "os_remove e ''temp_audio.mp3'' = None \<Longrightarrow>
   files (snd (transcribe_audio_with_whisper_body e url w)) ''temp_audio.mp3'' = None"
  by (simp add: transcribe_audio_with_whisper_body_def Let_def split: prod.splits)

lemma get_video_transcript_body_no_id:
  "\<not> contains ''v='' url \<Longrightarrow> get_video_transcript_body e url w = (Inr None, w)"
  by (simp add: get_video_transcript_body_def get_video_transcript_try_def str_split_no_sep)

lemma get_video_transcript_body_parsed:
  assumes "str_split url ''v='' = p0 # p1 # ps" and "str_split p1 ''&'' = vid # qs"
  shows "get_video_transcript_body e url w =
    (case yt_fetch e vid of
       Inr ts \<Rightarrow> (Inr (Some (join_str '' '' ts)), w\<lparr>calls := calls w @ [YtFetch vid]\<rparr>)
     | Inl NoTranscriptFound \<Rightarrow> transcribe_audio_with_whisper e url (w\<lparr>calls := calls w @ [YtFetch vid]\<rparr>)
     | Inl x \<Rightarrow> (Inr None, w\<lparr>calls := calls w @ [YtFetch vid]\<rparr>))"
  using assms
  by (simp add: get_video_transcript_body_def get_video_transcript_try_def Let_def
      split: sum.splits exn.splits)

lemma get_video_transcript_miss:
  "map_of (transcript_cache w) url = None \<Longrightarrow>
   fst (get_video_transcript e url w) = fst (get_video_transcript_body e url w)
   \<and> calls (snd (get_video_transcript e url w)) = calls (snd (get_video_transcript_body e url w))
   \<and> files (snd (get_video_transcript e url w)) = files (snd (get_video_transcript_body e url w))"
  by (auto simp: get_video_transcript_def split: prod.splits sum.splits)

lemma get_video_transcript_hit:
  "map_of (transcript_cache w) url = Some v \<Longrightarrow> get_video_transcript e url w = (Inr v, w)"
  by (simp add: get_video_transcript_def)

lemma load_and_cache_document_removed:
  "os_remove e (''temp_docs_cache'' @ ''/'' @ md5_hexdigest e b @ snd (splitext e n)) = None \<Longrightarrow>
   files (snd (load_and_cache_document e b n t w))
     (''temp_docs_cache'' @ ''/'' @ md5_hexdigest e b @ snd (splitext e n)) = None"
  by (simp add: load_and_cache_document_def Let_def)

lemma video_url_split:
  "str_split video_url ''v='' = [''https://www.youtube.com/watch?'', ''abc&t=1'']"
  "str_split ''abc&t=1'' ''&'' = [''abc'', ''t=1'']"
  by (simp_all add: video_url_def str_split_def)

text \<open>
  C6, as the code has it. For a video URL whose id parses and whose transcript is not
  memoised: when the transcript fetch succeeds its text is returned and nothing but the
  fetch is called; when the fetch raises \<open>NoTranscriptFound\<close> the fallback is entered
  and, unless its result is memoised, the audio download is attempted right after the
  fetch, while the speech-to-text model is loaded only if the download returns and
  \<open>temp_audio.mp3\<close> exists, and the transcription is run only if the model loads too;
  any other fetch error gives \<open>None\<close> with nothing but the fetch called. A memoised
  URL returns the stored value and calls nothing.
\<close>

theorem get_video_transcript_fallback_order:
  assumes "str_split url ''v='' = p0 # p1 # ps" and "str_split p1 ''&'' = vid # qs"
  shows "(\<forall>v. map_of (transcript_cache w) url = Some v \<longrightarrow>
            get_video_transcript e url w = (Inr v, w))
       \<and> (map_of (transcript_cache w) url = None \<longrightarrow>
            (\<forall>ts. yt_fetch e vid = Inr ts \<longrightarrow>
               fst (get_video_transcript e url w) = Inr (Some (join_str '' '' ts))
               \<and> calls (snd (get_video_transcript e url w)) = calls w @ [YtFetch vid])
          \<and> (yt_fetch e vid = Inl NoTranscriptFound \<longrightarrow>
               fst (get_video_transcript e url w)
                 = fst (transcribe_audio_with_whisper e url (w\<lparr>calls := calls w @ [YtFetch vid]\<rparr>))
               \<and> (\<forall>v. map_of (whisper_cache w) url = Some v \<longrightarrow>
                     fst (get_video_transcript e url w) = Inr v
                     \<and> calls (snd (get_video_transcript e url w)) = calls w @ [YtFetch vid])
               \<and> (map_of (whisper_cache w) url = None \<longrightarrow>
                     calls (snd (get_video_transcript e url w))
                       = calls w @ [YtFetch vid, YdlDownload url] @
                           (case ydl_download e url (files w) of
                              (Some m, fs) \<Rightarrow> []
                            | (None, fs) \<Rightarrow>
                                (case fs ''temp_audio.mp3'' of
                                   None \<Rightarrow> []
                                 | Some audio \<Rightarrow>
                                     (case whisper_model e of
                                        Some m \<Rightarrow> [WhisperLoad]
                                      | None \<Rightarrow> [WhisperLoad, WhisperTranscribe ''temp_audio.mp3''])))))
          \<and> (\<forall>x. yt_fetch e vid = Inl x \<and> x \<noteq> NoTranscriptFound \<longrightarrow>
               fst (get_video_transcript e url w) = Inr None
               \<and> calls (snd (get_video_transcript e url w)) = calls w @ [YtFetch vid]))"
proof (intro conjI allI impI)
  fix v assume "map_of (transcript_cache w) url = Some v"
  then show "get_video_transcript e url w = (Inr v, w)"
    by (rule get_video_transcript_hit)
next
  fix ts assume "map_of (transcript_cache w) url = None" and "yt_fetch e vid = Inr ts"
  then show "fst (get_video_transcript e url w) = Inr (Some (join_str '' '' ts))"
    and "calls (snd (get_video_transcript e url w)) = calls w @ [YtFetch vid]"
    by (simp_all add: get_video_transcript_miss get_video_transcript_body_parsed [OF assms])
next
  assume miss: "map_of (transcript_cache w) url = None"
    and nt: "yt_fetch e vid = Inl NoTranscriptFound"
  let ?w1 = "w\<lparr>calls := calls w @ [YtFetch vid]\<rparr>"
  have body: "get_video_transcript_body e url w = transcribe_audio_with_whisper e url ?w1"
    using nt by (simp add: get_video_transcript_body_parsed [OF assms])
  show "fst (get_video_transcript e url w) = fst (transcribe_audio_with_whisper e url ?w1)"
    using miss body by (simp add: get_video_transcript_miss)
  {
    fix v assume hit: "map_of (whisper_cache w) url = Some v"
    then have "transcribe_audio_with_whisper e url ?w1 = (Inr v, ?w1)"
      by (simp add: transcribe_audio_with_whisper_hit)
    then show "fst (get_video_transcript e url w) = Inr v"
      and "calls (snd (get_video_transcript e url w)) = calls w @ [YtFetch vid]"
      using miss body by (simp_all add: get_video_transcript_miss)
  }
  {
    assume wmiss: "map_of (whisper_cache w) url = None"
    then have "calls (snd (transcribe_audio_with_whisper e url ?w1))
        = calls (snd (transcribe_audio_try e url ?w1))"
      by (simp add: transcribe_audio_with_whisper_calls)
    then show "calls (snd (get_video_transcript e url w))
                       = calls w @ [YtFetch vid, YdlDownload url] @
                           (case ydl_download e url (files w) of
                              (Some m, fs) \<Rightarrow> []
                            | (None, fs) \<Rightarrow>
                                (case fs ''temp_audio.mp3'' of
                                   None \<Rightarrow> []
                                 | Some audio \<Rightarrow>
                                     (case whisper_model e of
                                        Some m \<Rightarrow> [WhisperLoad]
                                      | None \<Rightarrow> [WhisperLoad, WhisperTranscribe ''temp_audio.mp3''])))"
      using miss body by (simp add: get_video_transcript_miss transcribe_audio_try_calls)
  }
next
  fix x assume "map_of (transcript_cache w) url = None"
    and "yt_fetch e vid = Inl x \<and> x \<noteq> NoTranscriptFound"
  then show "fst (get_video_transcript e url w) = Inr None"
    and "calls (snd (get_video_transcript e url w)) = calls w @ [YtFetch vid]"
    by (cases x; simp add: get_video_transcript_miss get_video_transcript_body_parsed [OF assms])+
qed

theorem get_video_transcript_fallback_order_witness:
  "fst (get_video_transcript env0 video_url world0) = Inr (Some ''hello world'')
   \<and> calls (snd (get_video_transcript env0 video_url world0)) = [YtFetch ''abc'']
   \<and> calls (snd (get_video_transcript env_no_transcript video_url world0))
       = [YtFetch ''abc'', YdlDownload video_url, WhisperLoad, WhisperTranscribe ''temp_audio.mp3'']
   \<and> calls (snd (get_video_transcript env_download_fails video_url world0))
       = [YtFetch ''abc'', YdlDownload video_url]
   \<and> fst (get_video_transcript env_fetch_error video_url world0) = Inr None
   \<and> calls (snd (get_video_transcript env_fetch_error video_url world0)) = [YtFetch ''abc'']
   \<and> get_video_transcript env0 video_url world_memoised
       = (Inr (Some ''an earlier transcript''), world_memoised)"
  using get_video_transcript_fallback_order [OF video_url_split, of world0 env0]
    get_video_transcript_fallback_order [OF video_url_split, of world0 env_no_transcript]
    get_video_transcript_fallback_order [OF video_url_split, of world0 env_download_fails]
    get_video_transcript_fallback_order [OF video_url_split, of world0 env_fetch_error]
    get_video_transcript_fallback_order [OF video_url_split, of world_memoised env0]
  by (simp add: env0_def env_no_transcript_def env_fetch_error_def env_download_fails_def
      world0_def world_memoised_def)

text \<open>
  The download returns, the audio is stored under another name, and the function gives up
  without loading the model or transcribing anything.
\<close>

theorem transcription_not_attempted_counterexample:
  "yt_fetch env_other_name ''abc'' = Inl NoTranscriptFound
   \<and> fst (get_video_transcript env_other_name video_url world0) = Inr None
   \<and> calls (snd (get_video_transcript env_other_name video_url world0))
       = [YtFetch ''abc'', YdlDownload video_url]"
  by (simp add: get_video_transcript_miss get_video_transcript_body_parsed [OF video_url_split]
      transcribe_audio_with_whisper_def transcribe_audio_with_whisper_body_def
      transcribe_audio_try_def env_other_name_def env0_def world0_def)

lemma get_video_transcript_total_if_removed:
  assumes "os_remove e ''temp_audio.mp3'' = None"
  shows "\<exists>r. fst (get_video_transcript e url w) = Inr r"
proof -
  have "\<exists>r. fst (get_video_transcript_body e url w) = Inr r"
    using transcribe_audio_with_whisper_returns [OF assms]
    by (auto simp: get_video_transcript_body_def split: prod.splits sum.splits exn.splits)
  then show ?thesis
    by (auto simp: get_video_transcript_def split: prod.splits sum.splits option.splits)
qed

lemma get_video_transcript_none_cases:
  assumes "map_of (transcript_cache w) url = None"
  shows "\<not> contains ''v='' url \<longrightarrow> fst (get_video_transcript e url w) = Inr None"
    and "str_split url ''v='' = p0 # p1 # ps \<and> str_split p1 ''&'' = vid # qs
         \<and> yt_fetch e vid = Inl x \<and> x \<noteq> NoTranscriptFound
         \<longrightarrow> fst (get_video_transcript e url w) = Inr None"
    and "str_split url ''v='' = p0 # p1 # ps \<and> str_split p1 ''&'' = vid # qs
         \<and> yt_fetch e vid = Inl NoTranscriptFound
         \<and> os_remove e ''temp_audio.mp3'' = None \<and> map_of (whisper_cache w) url = None
         \<and> fst (transcribe_audio_try e url (w\<lparr>calls := calls w @ [YtFetch vid]\<rparr>)) = Inl y
         \<longrightarrow> fst (get_video_transcript e url w) = Inr None"
proof -
  show "\<not> contains ''v='' url \<longrightarrow> fst (get_video_transcript e url w) = Inr None"
    using assms by (simp add: get_video_transcript_miss get_video_transcript_body_no_id)
  show "str_split url ''v='' = p0 # p1 # ps \<and> str_split p1 ''&'' = vid # qs
         \<and> yt_fetch e vid = Inl x \<and> x \<noteq> NoTranscriptFound
         \<longrightarrow> fst (get_video_transcript e url w) = Inr None"
    using assms
    by (cases x) (auto simp: get_video_transcript_miss get_video_transcript_body_parsed)
  show "str_split url ''v='' = p0 # p1 # ps \<and> str_split p1 ''&'' = vid # qs
         \<and> yt_fetch e vid = Inl NoTranscriptFound
         \<and> os_remove e ''temp_audio.mp3'' = None \<and> map_of (whisper_cache w) url = None
         \<and> fst (transcribe_audio_try e url (w\<lparr>calls := calls w @ [YtFetch vid]\<rparr>)) = Inl y
         \<longrightarrow> fst (get_video_transcript e url w) = Inr None"
    using assms
    by (auto simp: get_video_transcript_miss get_video_transcript_body_parsed
        transcribe_audio_with_whisper_failure)
qed

text \<open>
  C10. \<open>get_video_transcript\<close> is meant never to raise, and it does not as long as
  \<open>temp_audio.mp3\<close> can be removed. When \<open>os.remove\<close> fails in the \<open>finally\<close> block of
  the fallback, the exception leaves \<open>_transcribe_audio_with_whisper\<close>, is raised inside
  the \<open>NoTranscriptFound\<close> handler and reaches the caller, although the audio had been
  downloaded and transcribed; the file stays on disk.
\<close>

theorem cleanup_failure_reaches_caller:
  "fst (get_video_transcript env_cleanup_fails video_url world0)
     = Inl (LibraryError ''PermissionError: the file is being used by another process'')
   \<and> fst (transcribe_audio_try env_cleanup_fails video_url (world0\<lparr>calls := [YtFetch ''abc'']\<rparr>))
     = Inr ''spoken''
   \<and> files (snd (get_video_transcript env_cleanup_fails video_url world0)) ''temp_audio.mp3''
     = Some ''mp3''"
  by (simp add: get_video_transcript_miss get_video_transcript_body_parsed [OF video_url_split]
      transcribe_audio_with_whisper_def transcribe_audio_with_whisper_body_def
      transcribe_audio_try_def env_cleanup_fails_def env0_def world0_def)

text \<open>
  C8. Temporary files are removed whether extraction succeeds or raises. The document
  written by \<open>load_and_cache_document\<close> and \<open>temp_audio.mp3\<close> are removed in both
  outcomes, as long as \<open>os.remove\<close> succeeds; the download target \<open>temp_audio.mp4\<close>
  is not: when the download stores it and then fails, the function returns \<open>None\<close> and
  the file is still there.
\<close>

theorem audio_artifact_left_behind:
  "fst (get_video_transcript env_download_fails video_url world0) = Inr None
   \<and> files world0 ''temp_audio.mp4'' = None
   \<and> files (snd (get_video_transcript env_download_fails video_url world0)) ''temp_audio.mp4''
       = Some ''audio''"
  by (simp add: get_video_transcript_miss get_video_transcript_body_parsed [OF video_url_split]
      transcribe_audio_with_whisper_def transcribe_audio_with_whisper_body_def
      transcribe_audio_try_def env0_def env_download_fails_def world0_def)

section \<open>Ingestion and chat\<close>

lemma generate_suggested_questions_returns:
  "\<exists>qs. generate_suggested_questions e docs = Inr qs"
  by (auto simp: generate_suggested_questions_def Let_def split: option.splits sum.splits)

lemma process_new_source_failure:
  "process_new_source e docs name w = (Inl x, w') \<Longrightarrow> session_state w' = session_state w"
  using generate_suggested_questions_returns [of e docs]
  by (auto simp: process_new_source_def create_vector_store_cached_def create_rag_chain_cached_def
      generate_suggested_questions_cached_def cache_data_clear_def cache_resource_clear_def
      session_state_def Let_def split: prod.splits sum.splits option.splits)


lemma transcribe_audio_with_whisper_session:
  "session_state (snd (transcribe_audio_with_whisper e url w)) = session_state w"
  by (auto simp: transcribe_audio_with_whisper_def transcribe_audio_with_whisper_body_def
      transcribe_audio_try_def session_state_def Let_def
      split: prod.splits sum.splits option.splits)

lemma get_video_transcript_body_session:
  "session_state (snd (get_video_transcript_body e url w)) = session_state w"
proof -
  have t: "session_state (snd (get_video_transcript_try e url w)) = session_state w"
    by (auto simp: get_video_transcript_try_def session_state_def Let_def
        split: list.splits sum.splits)
  show ?thesis
    using t transcribe_audio_with_whisper_session [of e url "snd (get_video_transcript_try e url w)"]
    by (auto simp: get_video_transcript_body_def session_state_def
        split: prod.splits sum.splits exn.splits)
qed

lemma get_video_transcript_session:
  "session_state (snd (get_video_transcript e url w)) = session_state w"
  using get_video_transcript_body_session [of e url w]
  by (auto simp: get_video_transcript_def session_state_def
      split: prod.splits sum.splits option.splits)

lemma load_and_cache_document_session:
  "session_state (snd (load_and_cache_document e b n t w)) = session_state w"
  by (simp add: load_and_cache_document_def session_state_def Let_def split: option.splits)

lemma load_all_session:
  "session_state (snd (load_all e fs ds w)) = session_state w"
proof (induction fs arbitrary: ds w)
  case Nil
  show ?case by simp
next
  case (Cons f fs)
  show ?case
    using Cons.IH load_and_cache_document_session [of e "file_value f" "file_name f" "file_type f" w]
    by (auto split: prod.splits sum.splits)
qed

lemma process_url_no_ingest:
  assumes "process_url e url w = (r, w')" and "r \<noteq> RerunAfterIngest"
  shows "session_state w' = session_state w"
proof (cases "url = []")
  case True
  with assms show ?thesis by (simp add: process_url_def)
next
  case False
  obtain d w1 where ex: "(if contains ''youtube.com'' url \<or> contains ''youtu.be'' url then
                 (case get_video_transcript e url w of
                    (Inl x, w1) \<Rightarrow> (Inl x, w1)
                  | (Inr None, w1) \<Rightarrow> (Inr [], w1)
                  | (Inr (Some transcript), w1) \<Rightarrow>
                      (Inr (if transcript \<noteq> [] then [Document transcript] else []), w1))
               else (load_from_webpage e url, w)) = (d, w1)"
    by (cases "(if contains ''youtube.com'' url \<or> contains ''youtu.be'' url then
                 (case get_video_transcript e url w of
                    (Inl x, w1) \<Rightarrow> (Inl x, w1)
                  | (Inr None, w1) \<Rightarrow> (Inr [], w1)
                  | (Inr (Some transcript), w1) \<Rightarrow>
                      (Inr (if transcript \<noteq> [] then [Document transcript] else []), w1))
               else (load_from_webpage e url, w))") auto
  have w1: "session_state w1 = session_state w"
    using ex get_video_transcript_session [of e url w]
    by (auto split: if_splits prod.splits sum.splits option.splits)
  show ?thesis
    using assms False w1 process_new_source_failure
    unfolding process_url_def ex
    by (auto split: sum.splits if_splits prod.splits)
qed

lemma process_documents_no_ingest:
  assumes "process_documents e fs w = (r, w')" and "r \<noteq> RerunAfterIngest"
  shows "session_state w' = session_state w"
  using assms load_all_session [of e fs "[]" w] process_new_source_failure
  by (auto simp: process_documents_def Let_def split: if_splits prod.splits sum.splits)

lemmas eval_defs = ingest_def process_url_def process_documents_def process_new_source_def
  create_vector_store_cached_def create_rag_chain_cached_def generate_suggested_questions_cached_def
  cache_data_clear_def cache_resource_clear_def create_vector_store_def create_rag_chain_def
  generate_suggested_questions_def load_from_webpage_def lib_def as_retriever_def session_state_def
  Document_def strip_def isspace_def

text \<open>
  C2. An ingest that fails leaves the session as it was: when \<open>process_new_source\<close>
  raises (the store cannot be built, from empty documents or from documents that give no
  chunk, or the chain cannot be built), and whenever the handling of a source ends without
  the rerun that follows a completed ingest (extraction raised, nothing was extracted, or
  indexing raised), the index reference, the history, the label and the suggestions are
  those of before.
\<close>

theorem ingest_failure_keeps_session:
  "(process_new_source e docs name w = (Inl x, w') \<longrightarrow> session_state w' = session_state w)
   \<and> (ingest e src w = (r, w'') \<and> r \<noteq> RerunAfterIngest \<longrightarrow> session_state w'' = session_state w)"
  using process_new_source_failure process_url_no_ingest process_documents_no_ingest
  by (auto simp: ingest_def split: source.splits)

theorem ingest_failure_keeps_session_witness:
  "fst (ingest env_blank_page (UrlSource ''https://example.org'') world1)
     = Raised (ValueError ''Documents could not be split into chunks.'')
   \<and> session_state (snd (ingest env_blank_page (UrlSource ''https://example.org'') world1))
     = session_state world1
   \<and> fst (process_new_source env0 [] ''empty'' world1)
     = Inl (ValueError ''Cannot create vector store from empty documents list.'')
   \<and> session_state (snd (process_new_source env0 [] ''empty'' world1)) = session_state world1"
proof -
  let ?i = "ingest env_blank_page (UrlSource ''https://example.org'') world1"
  let ?p = "process_new_source env0 [] ''empty'' world1"
  have a: "fst ?i = Raised (ValueError ''Documents could not be split into chunks.'')"
    by (simp add: eval_defs env_blank_page_def env0_def world1_def world0_def)
  have b: "fst ?p = Inl (ValueError ''Cannot create vector store from empty documents list.'')"
    by (simp add: eval_defs env0_def world1_def world0_def)
  have a': "?i = (Raised (ValueError ''Documents could not be split into chunks.''), snd ?i)"
    using a by (simp add: prod_eq_iff)
  have b': "?p = (Inl (ValueError ''Cannot create vector store from empty documents list.''), snd ?p)"
    using b by (simp add: prod_eq_iff)
  show ?thesis
    using a b a' b'
      ingest_failure_keeps_session [where e = env0 and docs = "[]" and name = "''empty''"
        and w = world1 and w' = "snd ?p"
        and x = "ValueError ''Cannot create vector store from empty documents list.''"]
      ingest_failure_keeps_session [where e = env_blank_page and w = world1
        and src = "UrlSource ''https://example.org''" and w'' = "snd ?i"
        and r = "Raised (ValueError ''Documents could not be split into chunks.'')"]
    by simp
qed





lemma pending_prompt_asked [simp]: "pending_prompt (h @ [HumanMessage q]) = Some q"
  by (simp add: pending_prompt_def)

lemma pending_prompt_answered [simp]: "pending_prompt (h @ [AIMessage a ctx]) = None"
  by (simp add: pending_prompt_def)

lemma main_chat_interface_question:
  assumes "main_chat_interface e (ChatInput q) w = (RerunAfterQuestion, w1)"
  shows "w1 = w\<lparr>chat_history := chat_history w @ [HumanMessage q]\<rparr> \<and> rag_chain w \<noteq> None"
  using assms
  by (auto simp: main_chat_interface_def response_streaming_def Let_def
      split: option.splits sum.splits prod.splits if_splits)

lemma main_chat_interface_answer:
  assumes "main_chat_interface e ev w = (RerunAfterAnswer, w')"
  shows "\<exists>chain p cs a ctx.
           rag_chain w = Some chain \<and> pending_prompt (chat_history w) = Some p
           \<and> chain_stream e chain p (butlast (chat_history w)) = Inr cs
           \<and> consume_stream cs [] [] = (a, ctx)
           \<and> w' = w\<lparr>chat_history := chat_history w @ [AIMessage a ctx], suggested_questions := []\<rparr>"
  using assms
  by (auto simp: main_chat_interface_def response_streaming_def Let_def
      split: option.splits sum.splits prod.splits if_splits event.splits)

lemma ask_completes:
  assumes "rag_chain w = Some chain" and "q \<noteq> []" and "pending_prompt (chat_history w) = None"
    and "chain_stream e chain q (chat_history w) = Inr cs"
  shows "fst (ask e q w) = AskCompleted"
  using assms
  by (simp add: ask_def main_chat_interface_def response_streaming_def Let_def split: prod.splits)

text \<open>
  C3. When asking \<open>q\<close> completes, the history has grown by exactly two messages: the
  user's message with \<open>q\<close>, then the answer assembled from the stream.
\<close>

theorem ask_appends_two_turns:
  assumes "ask e q w = (AskCompleted, w')"
  shows "\<exists>a ctx. chat_history w' = chat_history w @ [HumanMessage q, AIMessage a ctx]
           \<and> length (chat_history w') = length (chat_history w) + 2
           \<and> (\<exists>chain cs. rag_chain w = Some chain
                 \<and> chain_stream e chain q (chat_history w) = Inr cs
                 \<and> consume_stream cs [] [] = (a, ctx))"
proof -
  obtain w1 where q: "main_chat_interface e (ChatInput q) w = (RerunAfterQuestion, w1)"
    and a: "main_chat_interface e NoEvent w1 = (RerunAfterAnswer, w')"
    using assms
    by (auto simp: ask_def split: prod.splits outcome.splits)
  have w1: "w1 = w\<lparr>chat_history := chat_history w @ [HumanMessage q]\<rparr>"
    using main_chat_interface_question [OF q] by simp
  show ?thesis
    using main_chat_interface_answer [OF a] unfolding w1 by auto
qed

theorem ask_appends_two_turns_witness:
  "fst (ask env0 ''What is the capital of France?'' world1) = AskCompleted
   \<and> chat_history (snd (ask env0 ''What is the capital of France?'' world1))
       = [HumanMessage ''Hi'', AIMessage ''Based on general knowledge: hello'' [],
          HumanMessage ''What is the capital of France?'',
          AIMessage ''Based on the provided context: yes'' []]"
proof -
  let ?a = "ask env0 ''What is the capital of France?'' world1"
  have c: "fst ?a = AskCompleted"
    by (rule ask_completes [where chain = chain1])
       (simp_all add: world1_def world0_def env0_def pending_prompt_def)
  then have c': "?a = (AskCompleted, snd ?a)"
    by (simp add: prod_eq_iff)
  show ?thesis
    using c ask_appends_two_turns [OF c']
    by (auto simp: world1_def world0_def env0_def)
qed

lemma consume_stream_result:
  "consume_stream cs t c0 =
     (t @ concat (map (\<lambda>c. case chunk_answer c of Some a \<Rightarrow> a | None \<Rightarrow> []) cs),
      last (c0 # filter (\<lambda>d. d \<noteq> [])
                   (map (\<lambda>c. case chunk_context c of Some d \<Rightarrow> d | None \<Rightarrow> []) cs)))"
  by (induction cs arbitrary: t c0) (auto split: option.splits)

lemma render_history_append:
  "render_history (h @ [m]) = render_history h @ render_message m"
  by (simp add: render_history_def)

text \<open>
  C1, as the code has it. The answer appended to the history carries the concatenation of
  the streamed answer pieces as its text and, as its citation set, the last non-empty
  context among the streamed pieces (the empty set if there is none), whatever the text
  begins with. It is the display that is tied to the marker: when the history is drawn,
  the sources of that answer are shown exactly when its text begins with
  \<open>Based on the provided context:\<close> and its citation set is not empty.
\<close>

theorem sources_shown_only_with_marker:
  assumes "main_chat_interface e ev w = (RerunAfterAnswer, w')"
  shows "\<exists>chain p cs a ctx.
           rag_chain w = Some chain \<and> pending_prompt (chat_history w) = Some p
           \<and> chain_stream e chain p (butlast (chat_history w)) = Inr cs
           \<and> a = concat (map (\<lambda>c. case chunk_answer c of Some t \<Rightarrow> t | None \<Rightarrow> []) cs)
           \<and> ctx = last ([] # filter (\<lambda>d. d \<noteq> [])
                     (map (\<lambda>c. case chunk_context c of Some d \<Rightarrow> d | None \<Rightarrow> []) cs))
           \<and> chat_history w' = chat_history w @ [AIMessage a ctx]
           \<and> render_history (chat_history w')
               = render_history (chat_history w) @ AssistantBubble a #
                   (if startswith a context_marker \<and> ctx \<noteq> []
                    then [SourcesExpander (map page_content ctx)] else [])"
proof -
  obtain chain p cs a ctx where h:
    "rag_chain w = Some chain" "pending_prompt (chat_history w) = Some p"
    "chain_stream e chain p (butlast (chat_history w)) = Inr cs"
    "consume_stream cs [] [] = (a, ctx)"
    "w' = w\<lparr>chat_history := chat_history w @ [AIMessage a ctx], suggested_questions := []\<rparr>"
    using main_chat_interface_answer [OF assms] by blast
  have a: "a = concat (map (\<lambda>c. case chunk_answer c of Some t \<Rightarrow> t | None \<Rightarrow> []) cs)"
    and c: "ctx = last ([] # filter (\<lambda>d. d \<noteq> [])
                     (map (\<lambda>c. case chunk_context c of Some d \<Rightarrow> d | None \<Rightarrow> []) cs))"
    using h(4) unfolding consume_stream_result by simp_all
  have r: "render_history (chat_history w')
               = render_history (chat_history w) @ AssistantBubble a #
                   (if startswith a context_marker \<and> ctx \<noteq> []
                    then [SourcesExpander (map page_content ctx)] else [])"
    unfolding h(5) by (simp add: render_history_append)
  show ?thesis
    using h(1-3) a c r h(5) by auto
qed

theorem sources_shown_only_with_marker_witness:
  "fst (main_chat_interface env_two_contexts NoEvent world_asked) = RerunAfterAnswer
   \<and> last (chat_history (snd (main_chat_interface env_two_contexts NoEvent world_asked)))
       = AIMessage ''Based on the provided context: Paris'' [Document ''Paris is the capital of France.'']
   \<and> render_history (chat_history (snd (main_chat_interface env_two_contexts NoEvent world_asked)))
       = [UserBubble ''Hi'', AssistantBubble ''Based on general knowledge: hello'',
          UserBubble ''What is 2+2?'', AssistantBubble ''Based on the provided context: Paris'',
          SourcesExpander [''Paris is the capital of France.'']]
   \<and> fst (main_chat_interface env_general_knowledge NoEvent world_asked) = RerunAfterAnswer
   \<and> render_history (chat_history (snd (main_chat_interface env_general_knowledge NoEvent world_asked)))
       = [UserBubble ''Hi'', AssistantBubble ''Based on general knowledge: hello'',
          UserBubble ''What is 2+2?'', AssistantBubble ''Based on general knowledge: 4'']"
proof -
  let ?m = "main_chat_interface env_two_contexts NoEvent world_asked"
  let ?g = "main_chat_interface env_general_knowledge NoEvent world_asked"
  have c: "fst ?m = RerunAfterAnswer"
    by (simp add: main_chat_interface_def response_streaming_def pending_prompt_def
      world_asked_def world1_def world0_def env_two_contexts_def env0_def)
  then have c': "?m = (RerunAfterAnswer, snd ?m)"
    by (simp add: prod_eq_iff)
  have d: "fst ?g = RerunAfterAnswer"
    by (simp add: main_chat_interface_def response_streaming_def pending_prompt_def
      world_asked_def world1_def world0_def env_general_knowledge_def env0_def)
  then have d': "?g = (RerunAfterAnswer, snd ?g)"
    by (simp add: prod_eq_iff)
  have w: "chat_history world_asked = [HumanMessage ''Hi'',
      AIMessage ''Based on general knowledge: hello'' [], HumanMessage ''What is 2+2?'']"
    "rag_chain world_asked = Some chain1"
    by (simp_all add: world_asked_def world1_def world0_def)
  show ?thesis
    using c d sources_shown_only_with_marker [OF c'] sources_shown_only_with_marker [OF d']
    by (auto simp: w env_two_contexts_def env_general_knowledge_def env0_def
        context_marker_def render_history_def pending_prompt_def Document_def)
qed

text \<open>
  The stored citation set is not tied to the marker: an answer from general knowledge is
  appended with the retrieved documents attached.
\<close>

theorem citation_without_marker_counterexample:
  "chat_history (snd (main_chat_interface env_general_knowledge NoEvent world_asked))
     = [HumanMessage ''Hi'', AIMessage ''Based on general knowledge: hello'' [],
        HumanMessage ''What is 2+2?'',
        AIMessage ''Based on general knowledge: 4'' [Document ''Paris is the capital of France.'']]
   \<and> [Document ''Paris is the capital of France.''] \<noteq> []
   \<and> \<not> startswith ''Based on general knowledge: 4'' ''Based on the provided context:''"
  by (simp add: main_chat_interface_def response_streaming_def pending_prompt_def
      world_asked_def world1_def world0_def env_general_knowledge_def env0_def)

text \<open>
  C9, as the code has it. While no source has been processed (\<open>rag_chain\<close> is
  \<open>None\<close>) the chat is not offered: a question is not accepted, nothing is appended to the
  history, no answer is produced and nothing is raised; the run ends with the notice that
  asks for a data source.
\<close>

theorem ask_without_source:
  assumes "rag_chain w = None"
  shows "ask e q w
       = (AskNotAccepted (StInfo ''Please process a data source from the sidebar to start a conversation.''), w)
     \<and> main_chat_interface e ev w
       = (StInfo ''Please process a data source from the sidebar to start a conversation.'', w)"
  using assms by (simp add: ask_def main_chat_interface_def)

theorem ask_without_source_witness:
  "rag_chain (world0\<lparr>source_name := ''none yet''\<rparr>) = None
   \<and> chat_history (snd (ask env0 ''Anything?'' (world0\<lparr>source_name := ''none yet''\<rparr>))) = []
   \<and> fst (ask env0 ''Anything?'' (world0\<lparr>source_name := ''none yet''\<rparr>))
       = AskNotAccepted (StInfo ''Please process a data source from the sidebar to start a conversation.'')"
proof -
  have n: "rag_chain (world0\<lparr>source_name := ''none yet''\<rparr>) = None"
    by (simp add: world0_def)
  show ?thesis
    using n ask_without_source [OF n, of env0 "''Anything?''" NoEvent]
    by (simp add: world0_def)
qed

text \<open>
  Asking before any source has been processed raises nothing: the outcome is the notice.
\<close>

theorem ask_without_source_counterexample:
  "rag_chain world0 = None
   \<and> ask env0 ''What is the capital of France?'' world0
       = (AskNotAccepted (StInfo ''Please process a data source from the sidebar to start a conversation.''),
          world0)"
  by (simp add: ask_def main_chat_interface_def world0_def)

end
